theory Spec2Isabelle
  imports Main "HOL-Library.Word"
begin

section \<open>The credential store (src/keystore.cpp, class CBasicKeyStore)\<close>

text \<open>
  Key material is opaque to the store: it only derives, compares, inserts and looks up.
  Every opaque value (a key, an address, a script identifier) is a natural number here,
  and every derivation on it that the store calls but does not define (the methods of
  the libzcash key classes) is a parameter, collected in the record
  \<open>key_derivation\<close>. Nothing is assumed about the derivations.
\<close>

type_synonym CKeyID = nat
type_synonym CKey = nat
type_synonym CScriptID = nat
type_synonym CScript = "nat list"
type_synonym SproutPaymentAddress = nat
type_synonym SproutSpendingKey = nat
type_synonym SaplingPaymentAddress = nat
type_synonym SaplingIncomingViewingKey = nat
type_synonym SaplingExtendedFullViewingKey = nat
type_synonym SaplingExtendedSpendingKey = nat
type_synonym SaplingExpandedSpendingKey = nat
type_synonym SaplingOutgoingViewingKey = nat
type_synonym blob88 = nat

text \<open>An HD seed is its raw bytes; \<open>IsNull\<close> is emptiness of the byte vector.\<close>

type_synonym HDSeed = "nat list"

definition IsNull :: "HDSeed \<Rightarrow> bool" where
  "IsNull seed = (seed = [])"

text \<open>
  A scheme-A viewing key carries the field \<open>sk_enc\<close> the store reads; its address is
  derived. A note decryptor is built from a receiving key by its constructor.
\<close>

record SproutViewingKey =
  a_pk :: nat
  sk_enc :: nat

datatype ZCNoteDecryption = ZCNoteDecryption nat

record key_derivation =
  sprout_sk_address :: "SproutSpendingKey \<Rightarrow> SproutPaymentAddress"
  sprout_sk_receiving_key :: "SproutSpendingKey \<Rightarrow> nat"
  sprout_vk_address :: "SproutViewingKey \<Rightarrow> SproutPaymentAddress"
  ToXFVK :: "SaplingExtendedSpendingKey \<Rightarrow> SaplingExtendedFullViewingKey"
  fvk_in_viewing_key :: "SaplingExtendedFullViewingKey \<Rightarrow> SaplingIncomingViewingKey"
  fvk_ovk :: "SaplingExtendedFullViewingKey \<Rightarrow> SaplingOutgoingViewingKey"
  DefaultAddress :: "SaplingExtendedFullViewingKey \<Rightarrow> SaplingPaymentAddress"
  expsk :: "SaplingExtendedSpendingKey \<Rightarrow> SaplingExpandedSpendingKey"
  expsk_in_viewing_key :: "SaplingExpandedSpendingKey \<Rightarrow> SaplingIncomingViewingKey"
  expsk_ovk :: "SaplingExpandedSpendingKey \<Rightarrow> SaplingOutgoingViewingKey"

text \<open>
  The members of \<open>CBasicKeyStore\<close>: a \<open>std::map\<close> is a partial function, a
  \<open>std::set\<close> a set. The two locks serialise the calls, so each operation is a
  function from the store to its result and the store after it.
\<close>

record CBasicKeyStore =
  mapKeys :: "CKeyID \<rightharpoonup> CKey"
  mapScripts :: "CScriptID \<rightharpoonup> CScript"
  setWatchOnly :: "CScript set"
  setSaplingWatchOnly :: "SaplingExtendedFullViewingKey set"
  hdSeed :: HDSeed
  mapSproutSpendingKeys :: "SproutPaymentAddress \<rightharpoonup> SproutSpendingKey"
  mapSproutViewingKeys :: "SproutPaymentAddress \<rightharpoonup> SproutViewingKey"
  mapNoteDecryptors :: "SproutPaymentAddress \<rightharpoonup> ZCNoteDecryption"
  mapSaplingSpendingKeys :: "SaplingExtendedFullViewingKey \<rightharpoonup> SaplingExtendedSpendingKey"
  mapSaplingFullViewingKeys :: "SaplingIncomingViewingKey \<rightharpoonup> SaplingExtendedFullViewingKey"
  setSaplingOutgoingViewingKeys :: "SaplingOutgoingViewingKey set"
  mapSaplingIncomingViewingKeys :: "SaplingPaymentAddress \<rightharpoonup> SaplingIncomingViewingKey"
  setSaplingIncomingViewingKeys :: "SaplingIncomingViewingKey set"
  mapSaplingPaymentAddresses :: "SaplingPaymentAddress \<rightharpoonup> (SaplingIncomingViewingKey \<times> blob88)"
  mapLastDiversifierPath :: "SaplingIncomingViewingKey \<rightharpoonup> blob88"

definition empty_store :: CBasicKeyStore where
  "empty_store =
     \<lparr>mapKeys = Map.empty, mapScripts = Map.empty, setWatchOnly = {},
      setSaplingWatchOnly = {}, hdSeed = [],
      mapSproutSpendingKeys = Map.empty, mapSproutViewingKeys = Map.empty,
      mapNoteDecryptors = Map.empty, mapSaplingSpendingKeys = Map.empty,
      mapSaplingFullViewingKeys = Map.empty, setSaplingOutgoingViewingKeys = {},
      mapSaplingIncomingViewingKeys = Map.empty, setSaplingIncomingViewingKeys = {},
      mapSaplingPaymentAddresses = Map.empty, mapLastDiversifierPath = Map.empty\<rparr>"

subsection \<open>The seed\<close>

text \<open>
  A C++ lookup that returns \<open>bool\<close> and fills an out-parameter is an \<open>option\<close>:
  \<open>None\<close> is \<open>false\<close> (the out-parameter untouched), \<open>Some v\<close> is \<open>true\<close> with
  \<open>v\<close> written. A mutator returns its \<open>bool\<close> and the store after the call.
\<close>

definition SetHDSeed :: "HDSeed \<Rightarrow> CBasicKeyStore \<Rightarrow> bool \<times> CBasicKeyStore" where
  "SetHDSeed seed s =
     (if \<not> IsNull (hdSeed s) then (False, s)
      else (True, s\<lparr>hdSeed := seed\<rparr>))"

definition HaveHDSeed :: "CBasicKeyStore \<Rightarrow> bool" where
  "HaveHDSeed s = (\<not> IsNull (hdSeed s))"

definition GetHDSeed :: "CBasicKeyStore \<Rightarrow> HDSeed option" where
  "GetHDSeed s = (if IsNull (hdSeed s) then None else Some (hdSeed s))"

subsection \<open>Scheme A (Sprout)\<close>

text \<open>
  \<open>std::map::insert\<close> keeps the entry already stored under the key; \<open>operator[]\<close>
  followed by assignment overwrites it.
\<close>

definition map_insert :: "('k \<rightharpoonup> 'v) \<Rightarrow> 'k \<Rightarrow> 'v \<Rightarrow> ('k \<rightharpoonup> 'v)" where
  "map_insert m k v = (case m k of None \<Rightarrow> m(k \<mapsto> v) | Some old \<Rightarrow> m)"

definition AddSproutSpendingKey ::
  "key_derivation \<Rightarrow> SproutSpendingKey \<Rightarrow> CBasicKeyStore \<Rightarrow> bool \<times> CBasicKeyStore" where
  "AddSproutSpendingKey K sk s =
     (let address = sprout_sk_address K sk
      in (True,
          s\<lparr>mapSproutSpendingKeys := (mapSproutSpendingKeys s)(address \<mapsto> sk),
            mapNoteDecryptors :=
              map_insert (mapNoteDecryptors s) address
                (ZCNoteDecryption (sprout_sk_receiving_key K sk))\<rparr>))"

definition AddSproutViewingKey ::
  "key_derivation \<Rightarrow> SproutViewingKey \<Rightarrow> CBasicKeyStore \<Rightarrow> bool \<times> CBasicKeyStore" where
  "AddSproutViewingKey K vk s =
     (let address = sprout_vk_address K vk
      in (True,
          s\<lparr>mapSproutViewingKeys := (mapSproutViewingKeys s)(address \<mapsto> vk),
            mapNoteDecryptors :=
              map_insert (mapNoteDecryptors s) address (ZCNoteDecryption (sk_enc vk))\<rparr>))"

definition RemoveSproutViewingKey ::
  "key_derivation \<Rightarrow> SproutViewingKey \<Rightarrow> CBasicKeyStore \<Rightarrow> bool \<times> CBasicKeyStore" where
  "RemoveSproutViewingKey K vk s =
     (True, s\<lparr>mapSproutViewingKeys := (mapSproutViewingKeys s)(sprout_vk_address K vk := None)\<rparr>)"

definition HaveSproutViewingKey :: "CBasicKeyStore \<Rightarrow> SproutPaymentAddress \<Rightarrow> bool" where
  "HaveSproutViewingKey s address = (mapSproutViewingKeys s address \<noteq> None)"

definition GetSproutViewingKey :: "CBasicKeyStore \<Rightarrow> SproutPaymentAddress \<Rightarrow> SproutViewingKey option" where
  "GetSproutViewingKey s address = mapSproutViewingKeys s address"

subsection \<open>Scheme B (Sapling)\<close>

definition AddSaplingIncomingViewingKey ::
  "SaplingIncomingViewingKey \<Rightarrow> SaplingPaymentAddress \<Rightarrow> CBasicKeyStore \<Rightarrow> bool \<times> CBasicKeyStore" where
  "AddSaplingIncomingViewingKey ivk addr s =
     (True,
      s\<lparr>mapSaplingIncomingViewingKeys := (mapSaplingIncomingViewingKeys s)(addr \<mapsto> ivk),
        setSaplingIncomingViewingKeys := insert ivk (setSaplingIncomingViewingKeys s)\<rparr>)"

definition AddSaplingFullViewingKey ::
  "key_derivation \<Rightarrow> SaplingExtendedFullViewingKey \<Rightarrow> CBasicKeyStore \<Rightarrow> bool \<times> CBasicKeyStore" where
  "AddSaplingFullViewingKey K extfvk s =
     (let ivk = fvk_in_viewing_key K extfvk
      in AddSaplingIncomingViewingKey ivk (DefaultAddress K extfvk)
           (s\<lparr>mapSaplingFullViewingKeys := (mapSaplingFullViewingKeys s)(ivk \<mapsto> extfvk),
              setSaplingOutgoingViewingKeys :=
                insert (fvk_ovk K extfvk) (setSaplingOutgoingViewingKeys s)\<rparr>))"

definition AddSaplingSpendingKey ::
  "key_derivation \<Rightarrow> SaplingExtendedSpendingKey \<Rightarrow> CBasicKeyStore \<Rightarrow> bool \<times> CBasicKeyStore" where
  "AddSaplingSpendingKey K sk s =
     (let extfvk = ToXFVK K sk
      in case AddSaplingFullViewingKey K extfvk s of
           (ok, s1) \<Rightarrow>
             if \<not> ok then (False, s1)
             else (True, s1\<lparr>mapSaplingSpendingKeys := (mapSaplingSpendingKeys s1)(extfvk \<mapsto> sk)\<rparr>))"

definition AddSaplingDiversifiedAddess ::
  "SaplingPaymentAddress \<Rightarrow> SaplingIncomingViewingKey \<Rightarrow> blob88 \<Rightarrow> CBasicKeyStore
     \<Rightarrow> bool \<times> CBasicKeyStore" where
  "AddSaplingDiversifiedAddess addr ivk path s =
     (True, s\<lparr>mapSaplingPaymentAddresses := (mapSaplingPaymentAddresses s)(addr \<mapsto> (ivk, path))\<rparr>)"

definition AddLastDiversifierUsed ::
  "SaplingIncomingViewingKey \<Rightarrow> blob88 \<Rightarrow> CBasicKeyStore \<Rightarrow> bool \<times> CBasicKeyStore" where
  "AddLastDiversifierUsed ivk path s =
     (True, s\<lparr>mapLastDiversifierPath := (mapLastDiversifierPath s)(ivk \<mapsto> path)\<rparr>)"

definition HaveSaplingFullViewingKey :: "CBasicKeyStore \<Rightarrow> SaplingIncomingViewingKey \<Rightarrow> bool" where
  "HaveSaplingFullViewingKey s ivk = (mapSaplingFullViewingKeys s ivk \<noteq> None)"

definition HaveSaplingIncomingViewingKey :: "CBasicKeyStore \<Rightarrow> SaplingPaymentAddress \<Rightarrow> bool" where
  "HaveSaplingIncomingViewingKey s addr = (mapSaplingIncomingViewingKeys s addr \<noteq> None)"

definition GetSaplingFullViewingKey ::
  "CBasicKeyStore \<Rightarrow> SaplingIncomingViewingKey \<Rightarrow> SaplingExtendedFullViewingKey option" where
  "GetSaplingFullViewingKey s ivk = mapSaplingFullViewingKeys s ivk"

definition GetSaplingIncomingViewingKey ::
  "CBasicKeyStore \<Rightarrow> SaplingPaymentAddress \<Rightarrow> SaplingIncomingViewingKey option" where
  "GetSaplingIncomingViewingKey s addr = mapSaplingIncomingViewingKeys s addr"

text \<open>
  Modelled from the spec: \<open>GetSaplingSpendingKey\<close> is declared in keystore.h, which is
  not among the sources. The spec's composite lookup resolves "full-viewing-key \<rightarrow>
  spending key" as its last link and fails when the link is missing; the map that holds
  the link is \<open>mapSaplingSpendingKeys\<close>, which \<open>AddSaplingSpendingKey\<close> fills.
\<close>

definition GetSaplingSpendingKey ::
  "CBasicKeyStore \<Rightarrow> SaplingExtendedFullViewingKey \<Rightarrow> SaplingExtendedSpendingKey option" where
  "GetSaplingSpendingKey s extfvk = mapSaplingSpendingKeys s extfvk"

text \<open>
  The three lookups are chained with \<open>&&\<close>: each runs only if the one before it
  returned \<open>true\<close>, on the value that one wrote.
\<close>

definition GetSaplingExtendedSpendingKey ::
  "CBasicKeyStore \<Rightarrow> SaplingPaymentAddress \<Rightarrow> SaplingExtendedSpendingKey option" where
  "GetSaplingExtendedSpendingKey s addr =
     (case GetSaplingIncomingViewingKey s addr of
        None \<Rightarrow> None
      | Some ivk \<Rightarrow>
          (case GetSaplingFullViewingKey s ivk of
             None \<Rightarrow> None
           | Some extfvk \<Rightarrow> GetSaplingSpendingKey s extfvk))"

section \<open>The consolidation job (src/wallet/asyncrpcoperation_saplingconsolidation.cpp)\<close>

text \<open>
  \<open>CAmount\<close> is \<open>int64_t\<close> and a note's value \<open>uint64_t\<close>: both are 64-bit words.
  A \<open>CAmount\<close> is read as a signed number (\<open>sint\<close>) and compared as one
  (\<open>word_sle\<close>); a note's value is read as an unsigned number (\<open>uint\<close>). The cast
  \<open>CAmount(note.value())\<close> keeps the 64 bits, so a value of \<open>2^63\<close> or more becomes
  a negative amount. Sums and differences of amounts are computed on the 64 bits, as the
  two's-complement machine does.
\<close>

type_synonym uint64_t = "64 word"
type_synonym CAmount = "64 word"
type_synonym SaplingOutPoint = nat
type_synonym SaplingWitness = nat
type_synonym uint256 = nat

record SaplingNote =
  note_value :: uint64_t
  note_rest :: nat

record SaplingNoteEntry =
  entry_op :: SaplingOutPoint
  entry_address :: SaplingPaymentAddress
  entry_note :: SaplingNote

definition CONSOLIDATION_EXPIRY_DELTA :: int where
  "CONSOLIDATION_EXPIRY_DELTA = 40"

subsection \<open>The transaction builder\<close>

text \<open>
  The builder is a collaborator. What the job configures on it is recorded: the expiry
  height, the fee, the spends and the outputs, in the order of the calls. \<open>Build\<close>
  itself is a parameter of the run.
\<close>

record SpendDescriptionInfo =
  spend_expsk :: SaplingExpandedSpendingKey
  spend_note :: SaplingNote
  spend_anchor :: uint256
  spend_witness :: SaplingWitness

record OutputDescriptionInfo =
  output_ovk :: SaplingOutgoingViewingKey
  output_to :: SaplingPaymentAddress
  output_value :: CAmount

record TransactionBuilder =
  expiryHeight :: int
  fee :: CAmount
  spends :: "SpendDescriptionInfo list"
  outputs :: "OutputDescriptionInfo list"

text \<open>A fresh builder; the job sets its expiry height and its fee before it builds.\<close>

definition new_TransactionBuilder :: TransactionBuilder where
  "new_TransactionBuilder = \<lparr>expiryHeight = 0, fee = 0, spends = [], outputs = []\<rparr>"

definition SetExpiryHeight :: "int \<Rightarrow> TransactionBuilder \<Rightarrow> TransactionBuilder" where
  "SetExpiryHeight h b = b\<lparr>expiryHeight := h\<rparr>"

definition SetFee :: "CAmount \<Rightarrow> TransactionBuilder \<Rightarrow> TransactionBuilder" where
  "SetFee f b = b\<lparr>fee := f\<rparr>"

definition AddSaplingSpend ::
  "SaplingExpandedSpendingKey \<Rightarrow> SaplingNote \<Rightarrow> uint256 \<Rightarrow> SaplingWitness
     \<Rightarrow> TransactionBuilder \<Rightarrow> TransactionBuilder" where
  "AddSaplingSpend k n anchor w b =
     b\<lparr>spends := spends b @
        [\<lparr>spend_expsk = k, spend_note = n, spend_anchor = anchor, spend_witness = w\<rparr>]\<rparr>"

definition AddSaplingOutput ::
  "SaplingOutgoingViewingKey \<Rightarrow> SaplingPaymentAddress \<Rightarrow> CAmount
     \<Rightarrow> TransactionBuilder \<Rightarrow> TransactionBuilder" where
  "AddSaplingOutput ovk to amount b =
     b\<lparr>outputs := outputs b @ [\<lparr>output_ovk = ovk, output_to = to, output_value = amount\<rparr>]\<rparr>"

subsection \<open>The operation, the wallet and the run's inputs\<close>

text \<open>
  Modelled from the spec: the state of an operation and its accessors \<open>set_state\<close> and
  \<open>isCancelled\<close> belong to the base class \<open>AsyncRPCOperation\<close>, which is not among
  the sources. The spec gives the states "Created \<rightarrow> Executing \<rightarrow> {Success | Failed |
  Cancelled}" and a cancellation flag that is polled; \<open>cancel\<close> (in the sources) is
  \<open>set_state(CANCELLED)\<close>, so the state is one stored value, \<open>set_state\<close> stores it
  and \<open>isCancelled\<close> compares it with \<open>CANCELLED\<close>.
\<close>

datatype OperationStatus = CREATED | EXECUTING | CANCELLED | FAILED | SUCCESS

definition set_state :: "OperationStatus \<Rightarrow> OperationStatus \<Rightarrow> OperationStatus" where
  "set_state new old = new"

definition isCancelled :: "OperationStatus \<Rightarrow> bool" where
  "isCancelled st = (st = CANCELLED)"

definition cancel :: "OperationStatus \<Rightarrow> OperationStatus" where
  "cancel st = set_state CANCELLED st"

record ConsolidationResult =
  num_tx_created :: int
  amount_consolidated :: CAmount
  consolidation_txids :: "string list"

definition setConsolidationResult :: "int \<Rightarrow> CAmount \<Rightarrow> string list \<Rightarrow> ConsolidationResult" where
  "setConsolidationResult n amount txids =
     \<lparr>num_tx_created = n, amount_consolidated = amount, consolidation_txids = txids\<rparr>"

text \<open>The wallet's scheduling fields, which the job writes when a run is complete.\<close>

record WalletSchedule =
  nextConsolidation :: int
  fConsolidationRunning :: bool

text \<open>
  Everything a run reads from outside: the wallet as a key store, the configuration,
  the chain, the notes, and the collaborators as functions.
  \<^item> \<open>consolidatesaplingaddress\<close>: the entries of the option of that name, each already
    decoded (\<open>Some a\<close> for a Sapling address, \<open>None\<close> for anything else);
  \<^item> \<open>GetFilteredNotes\<close>: the Sapling notes the wallet returns at depth 11;
  \<^item> \<open>rand\<close>: the values of the successive calls of \<open>rand()\<close>;
  \<^item> \<open>TipHeight\<close>: the height of the chain tip when it is read, during the address
    given or (\<open>None\<close>) after the loop;
  \<^item> \<open>witness_of\<close>, \<open>anchor_of\<close>: the wallet's \<open>GetSaplingNoteWitnesses\<close>, which fills
    one optional witness per outpoint it is given, and the anchor;
  \<^item> \<open>Build\<close>, \<open>GetHash\<close>: the builder's \<open>Build()\<close> and the transaction's identifier;
  \<^item> \<open>cancel_arrives\<close>: whether another thread calls \<open>cancel()\<close> while the address is
    in flight, before its witnesses are retrieved.
\<close>

record 'tx consolidation_env =
  derive :: key_derivation
  pwalletMain :: CBasicKeyStore
  targetConsolidationQty :: int
  initializeConsolidationInterval :: int
  fConsolidationTxFee :: CAmount
  fConsolidationMapUsed :: bool
  consolidatesaplingaddress :: "SaplingPaymentAddress option list"
  targetHeight :: int
  NextActivationHeight :: "int option"
  GetFilteredNotes :: "SaplingNoteEntry list"
  rand :: "nat \<Rightarrow> nat"
  TipHeight :: "SaplingPaymentAddress option \<Rightarrow> int"
  witness_of :: "SaplingOutPoint \<Rightarrow> SaplingWitness option"
  anchor_of :: "SaplingOutPoint list \<Rightarrow> uint256"
  Build :: "TransactionBuilder \<Rightarrow> 'tx option"
  GetHash :: "'tx \<Rightarrow> string"
  cancel_arrives :: "SaplingPaymentAddress \<Rightarrow> bool"

definition GetSaplingNoteWitnesses ::
  "'tx consolidation_env \<Rightarrow> SaplingOutPoint list \<Rightarrow> SaplingWitness option list \<times> uint256" where
  "GetSaplingNoteWitnesses env ops = (map (witness_of env) ops, anchor_of env ops)"

subsection \<open>Grouping the notes by address (lines 92 to 116)\<close>

fun decoded_addresses :: "SaplingPaymentAddress option list \<Rightarrow> SaplingPaymentAddress set" where
  "decoded_addresses [] = {}"
| "decoded_addresses (Some a # v) = insert a (decoded_addresses v)"
| "decoded_addresses (None # v) = decoded_addresses v"

text \<open>
  \<open>mapAddresses\<close> is a \<open>std::map\<close> that the job iterates, so its order counts: it is
  an association list kept in ascending order of its keys. A note of a known address is
  appended to that address's vector, a note of a new address starts one.
\<close>

fun mapAddresses_add ::
  "SaplingNoteEntry \<Rightarrow> (SaplingPaymentAddress \<times> SaplingNoteEntry list) list
     \<Rightarrow> (SaplingPaymentAddress \<times> SaplingNoteEntry list) list" where
  "mapAddresses_add e [] = [(entry_address e, [e])]"
| "mapAddresses_add e ((a, es) # m) =
     (if entry_address e = a then (a, es @ [e]) # m
      else if entry_address e < a then (entry_address e, [e]) # (a, es) # m
      else (a, es) # mapAddresses_add e m)"

fun group_notes ::
  "bool \<Rightarrow> SaplingPaymentAddress set \<Rightarrow> SaplingNoteEntry list
     \<Rightarrow> (SaplingPaymentAddress \<times> SaplingNoteEntry list) list
     \<Rightarrow> (SaplingPaymentAddress \<times> SaplingNoteEntry list) list" where
  "group_notes used addresses [] m = m"
| "group_notes used addresses (e # es) m =
     group_notes used addresses es
       (if entry_address e \<in> addresses \<or> \<not> used then mapAddresses_add e m else m)"

definition mapAddresses ::
  "'tx consolidation_env \<Rightarrow> (SaplingPaymentAddress \<times> SaplingNoteEntry list) list" where
  "mapAddresses env =
     (let addresses =
            (if fConsolidationMapUsed env then decoded_addresses (consolidatesaplingaddress env)
             else {})
      in group_notes (fConsolidationMapUsed env) addresses (GetFilteredNotes env) [])"

subsection \<open>Counting and selecting the notes of one address (lines 136 to 172)\<close>

text \<open>
  The job looks the note's address up and ignores the lookup's result: when it fails the
  local \<open>ivk\<close> keeps its default-constructed value, the zero \<open>uint256\<close>.
\<close>

definition null_ivk :: SaplingIncomingViewingKey where
  "null_ivk = 0"

definition note_is_ours ::
  "'tx consolidation_env \<Rightarrow> SaplingExtendedSpendingKey \<Rightarrow> SaplingPaymentAddress
     \<Rightarrow> SaplingNoteEntry \<Rightarrow> bool" where
  "note_is_ours env extsk addr saplingEntry =
     (let ivk = (case GetSaplingIncomingViewingKey (pwalletMain env) (entry_address saplingEntry) of
                   None \<Rightarrow> null_ivk
                 | Some i \<Rightarrow> i)
      in ivk = expsk_in_viewing_key (derive env) (expsk (derive env) extsk)
         \<and> entry_address saplingEntry = addr)"

fun count_notes ::
  "'tx consolidation_env \<Rightarrow> SaplingExtendedSpendingKey \<Rightarrow> SaplingPaymentAddress
     \<Rightarrow> SaplingNoteEntry list \<Rightarrow> int \<Rightarrow> int" where
  "count_notes env extsk addr [] noteCount = noteCount"
| "count_notes env extsk addr (e # es) noteCount =
     count_notes env extsk addr es
       (if note_is_ours env extsk addr e then noteCount + 1 else noteCount)"

text \<open>
  The selection loop: a note of ours is added to the amount and to \<open>fromNotes\<close>; after
  every entry, ours or not, the loop stops once \<open>fromNotes\<close> holds \<open>maxQuantity\<close> notes.
\<close>

fun select_notes ::
  "'tx consolidation_env \<Rightarrow> SaplingExtendedSpendingKey \<Rightarrow> SaplingPaymentAddress \<Rightarrow> nat
     \<Rightarrow> SaplingNoteEntry list \<Rightarrow> CAmount \<times> SaplingNoteEntry list
     \<Rightarrow> CAmount \<times> SaplingNoteEntry list" where
  "select_notes env extsk addr maxQuantity [] acc = acc"
| "select_notes env extsk addr maxQuantity (e # es) (amountToSend, fromNotes) =
     (let acc' = (if note_is_ours env extsk addr e
                  then (amountToSend + note_value (entry_note e), fromNotes @ [e])
                  else (amountToSend, fromNotes))
      in if length (snd acc') \<ge> maxQuantity then acc'
         else select_notes env extsk addr maxQuantity es acc')"

subsection \<open>Adding the spends (lines 207 to 214)\<close>

text \<open>
  The loop over the notes and their witnesses, position by position: the first missing
  witness leaves the loop, and the spends added before it stay in the builder.
\<close>

fun add_spends ::
  "SaplingExpandedSpendingKey \<Rightarrow> uint256 \<Rightarrow> (SaplingNote \<times> SaplingWitness option) list
     \<Rightarrow> TransactionBuilder \<Rightarrow> TransactionBuilder" where
  "add_spends k anchor [] builder = builder"
| "add_spends k anchor ((n, None) # rest) builder = builder"
| "add_spends k anchor ((n, Some w) # rest) builder =
     add_spends k anchor rest (AddSaplingSpend k n anchor w builder)"

subsection \<open>One address (the body of the loop, lines 126 to 238)\<close>

text \<open>
  The locals of \<open>main_impl\<close> that the loop updates, with what the loop does to the
  world: the number of \<open>rand()\<close> calls made, the transactions handed to the wallet's
  \<open>CommitAutomatedTx\<close>, and the operation's state (written by \<open>cancel\<close>).
\<close>

record 'tx loop_state =
  numTxCreated :: int
  consolidationTxIds :: "string list"
  amountConsolidated :: CAmount
  consolidationComplete :: bool
  rand_calls :: nat
  committed :: "'tx list"
  state :: OperationStatus

text \<open>
  How the body was left, for each address the loop reached: no spending key (the
  \<open>if\<close> at line 130 fails), the \<open>continue\<close> at line 151, the \<open>continue\<close> at line
  177, the \<open>break\<close> at line 224, the \<open>break\<close> at line 230, or the end of the body after
  the commit. The last three carry the notes selected and the builder as it was when
  \<open>Build\<close> was called.
\<close>

datatype 'tx outcome =
    NoSpendingKey
  | BelowTarget
  | BelowMinimum
  | BuildFailed "SaplingNoteEntry list" TransactionBuilder
  | CancelledStop "SaplingNoteEntry list" TransactionBuilder 'tx
  | Committed "SaplingNoteEntry list" TransactionBuilder 'tx

fun leaves_loop :: "'tx outcome \<Rightarrow> bool" where
  "leaves_loop (BuildFailed fromNotes b) = True"
| "leaves_loop (CancelledStop fromNotes b tx) = True"
| "leaves_loop other = False"

definition consolidate_address ::
  "'tx consolidation_env \<Rightarrow> SaplingPaymentAddress \<times> SaplingNoteEntry list \<Rightarrow> 'tx loop_state
     \<Rightarrow> 'tx outcome \<times> 'tx loop_state" where
  "consolidate_address env it st =
     (let addr = fst it; saplingEntries = snd it
      in case GetSaplingExtendedSpendingKey (pwalletMain env) addr of
           None \<Rightarrow> (NoSpendingKey, st)
         | Some extsk \<Rightarrow>
            (let maxQuantity = rand env (rand_calls st) mod 35 + 10;
                 st1 = st\<lparr>rand_calls := rand_calls st + 1\<rparr>;
                 targetCount = targetConsolidationQty env;
                 noteCount = count_notes env extsk addr saplingEntries 0
             in if noteCount < targetCount then (BelowTarget, st1)
                else
                 (let st2 = st1\<lparr>consolidationComplete := False\<rparr>;
                      sel = select_notes env extsk addr maxQuantity saplingEntries (0, []);
                      amountToSend = fst sel;
                      fromNotes = snd sel;
                      minQuantity = rand env (rand_calls st2) mod 10 + 2;
                      st3 = st2\<lparr>rand_calls := rand_calls st2 + 1\<rparr>
                  in if length fromNotes < minQuantity then (BelowMinimum, st3)
                     else
                      (let fee0 = (if word_sle amountToSend (fConsolidationTxFee env) then 0
                                   else fConsolidationTxFee env);
                           st4 = st3\<lparr>amountConsolidated := amountConsolidated st3 + amountToSend\<rparr>;
                           builder0 = SetExpiryHeight
                                        (TipHeight env (Some addr) + CONSOLIDATION_EXPIRY_DELTA)
                                        new_TransactionBuilder;
                           ops = map entry_op fromNotes;
                           notes = map entry_note fromNotes;
                           st5 = (if cancel_arrives env addr
                                  then st4\<lparr>state := cancel (state st4)\<rparr> else st4);
                           wa = GetSaplingNoteWitnesses env ops;
                           builder1 = add_spends (expsk (derive env) extsk) (snd wa)
                                        (zip notes (fst wa)) builder0;
                           builder2 = SetFee fee0 builder1;
                           builder3 = AddSaplingOutput
                                        (expsk_ovk (derive env) (expsk (derive env) extsk))
                                        addr (amountToSend - fee0) builder2
                       in case Build env builder3 of
                            None \<Rightarrow> (BuildFailed fromNotes builder3, st5)
                          | Some tx \<Rightarrow>
                              if isCancelled (state st5)
                              then (CancelledStop fromNotes builder3 tx, st5)
                              else (Committed fromNotes builder3 tx,
                                    st5\<lparr>committed := committed st5 @ [tx],
                                        amountConsolidated :=
                                          amountConsolidated st5 + (amountToSend - fee0),
                                        consolidationTxIds :=
                                          consolidationTxIds st5 @ [GetHash env tx]\<rparr>)))))"

subsection \<open>The loop and \<open>main_impl\<close>\<close>

fun consolidate_all ::
  "'tx consolidation_env \<Rightarrow> (SaplingPaymentAddress \<times> SaplingNoteEntry list) list \<Rightarrow> 'tx loop_state
     \<Rightarrow> 'tx loop_state \<times> (SaplingPaymentAddress \<times> 'tx outcome) list" where
  "consolidate_all env [] st = (st, [])"
| "consolidate_all env (it # rest) st =
     (case consolidate_address env it st of
        (out, st') \<Rightarrow>
          if leaves_loop out then (st', [(fst it, out)])
          else (case consolidate_all env rest st' of
                  (st'', tr) \<Rightarrow> (st'', (fst it, out) # tr)))"

text \<open>
  What a run leaves behind: whether \<open>main_impl\<close> returned \<open>true\<close>, the result it set
  (none when \<open>main\<close> returned before calling it), the operation's state, the wallet's
  scheduling fields, the transactions committed, and how each address was left.
\<close>

record 'tx run =
  success :: bool
  result :: "ConsolidationResult option"
  op_state :: OperationStatus
  wallet :: WalletSchedule
  committed_txs :: "'tx list"
  trace :: "(SaplingPaymentAddress \<times> 'tx outcome) list"

definition too_close_to_activation :: "'tx consolidation_env \<Rightarrow> bool" where
  "too_close_to_activation env =
     (case NextActivationHeight env of
        None \<Rightarrow> False
      | Some h \<Rightarrow> targetHeight env + CONSOLIDATION_EXPIRY_DELTA \<ge> h)"

definition mark_complete :: "'tx consolidation_env \<Rightarrow> WalletSchedule \<Rightarrow> WalletSchedule" where
  "mark_complete env w =
     w\<lparr>nextConsolidation := initializeConsolidationInterval env + TipHeight env None,
       fConsolidationRunning := False\<rparr>"

definition main_impl ::
  "'tx consolidation_env \<Rightarrow> OperationStatus \<Rightarrow> WalletSchedule \<Rightarrow> 'tx run" where
  "main_impl env st0 w =
     (if too_close_to_activation env
      then \<lparr>success = True, result = Some (setConsolidationResult 0 0 []), op_state = st0,
            wallet = w, committed_txs = [], trace = []\<rparr>
      else
       (case consolidate_all env (mapAddresses env)
               \<lparr>numTxCreated = 0, consolidationTxIds = [], amountConsolidated = 0,
                consolidationComplete = True, rand_calls = 0, committed = [], state = st0\<rparr> of
          (st, tr) \<Rightarrow>
            \<lparr>success = True,
             result = Some (setConsolidationResult (numTxCreated st) (amountConsolidated st)
                              (consolidationTxIds st)),
             op_state = state st,
             wallet = (if consolidationComplete st then mark_complete env w else w),
             committed_txs = committed st,
             trace = tr\<rparr>))"

text \<open>
  \<open>main\<close>: a job cancelled before it starts returns at once. Otherwise the state is
  set to \<open>EXECUTING\<close>, \<open>main_impl\<close> runs, and the state is set to \<open>SUCCESS\<close> or
  \<open>FAILED\<close> by what it returned. The collaborators are functions here and throw
  nothing, so the handlers of \<open>main\<close> are never entered.
\<close>

definition main :: "'tx consolidation_env \<Rightarrow> OperationStatus \<Rightarrow> WalletSchedule \<Rightarrow> 'tx run" where
  "main env st0 w =
     (if isCancelled st0
      then \<lparr>success = False, result = None, op_state = st0, wallet = w,
            committed_txs = [], trace = []\<rparr>
      else
       (let r = main_impl env (set_state EXECUTING st0) w
        in r\<lparr>op_state := (if success r then set_state SUCCESS (op_state r)
                          else set_state FAILED (op_state r))\<rparr>))"

section \<open>Vocabulary of the properties\<close>

text \<open>
  The notes an address's attempt selected and the builder it configured, for the
  outcomes that got as far as \<open>Build\<close>.
\<close>

fun attempt_of :: "'tx outcome \<Rightarrow> (SaplingNoteEntry list \<times> TransactionBuilder) option" where
  "attempt_of (BuildFailed fromNotes b) = Some (fromNotes, b)"
| "attempt_of (CancelledStop fromNotes b tx) = Some (fromNotes, b)"
| "attempt_of (Committed fromNotes b tx) = Some (fromNotes, b)"
| "attempt_of other = None"

text \<open>
  The summed value of a list of notes, as the number it is: the sum of the unsigned
  values, not reduced to 64 bits.
\<close>

definition notes_value :: "SaplingNoteEntry list \<Rightarrow> int" where
  "notes_value fromNotes = sum_list (map (\<lambda>e. uint (note_value (entry_note e))) fromNotes)"

text \<open>The amounts of a builder's outputs, read as signed numbers.\<close>

definition output_amounts :: "TransactionBuilder \<Rightarrow> int list" where
  "output_amounts b = map (\<lambda>out. sint (output_value out)) (outputs b)"

text \<open>
  An address leaves \<open>consolidationComplete\<close> alone when the wallet holds no spending
  key for it, or when it counts fewer notes of its own than the target (the
  \<open>continue\<close> at line 151).
\<close>

definition leaves_complete ::
  "'tx consolidation_env \<Rightarrow> SaplingPaymentAddress \<times> SaplingNoteEntry list \<Rightarrow> bool" where
  "leaves_complete env it =
     (case GetSaplingExtendedSpendingKey (pwalletMain env) (fst it) of
        None \<Rightarrow> True
      | Some extsk \<Rightarrow> count_notes env extsk (fst it) (snd it) 0 < targetConsolidationQty env)"

text \<open>The outcomes that the spec's steps 4b and 4c name: the two \<open>continue\<close>s.\<close>

fun skipped_4b_or_4c :: "'tx outcome \<Rightarrow> bool" where
  "skipped_4b_or_4c BelowTarget = True"
| "skipped_4b_or_4c BelowMinimum = True"
| "skipped_4b_or_4c other = False"

section \<open>Concrete runs\<close>

text \<open>
  A wallet that holds one spending key, and runs of the job over it. The derivations are
  fixed functions: the spending key 10 has the full viewing key 11, the incoming viewing
  key 12, the default address 13 and the outgoing viewing key 14. The builder of these
  runs returns its own configuration as the transaction, and builds when the spends
  cover the outputs and the fee (no negative change).
\<close>

definition example_derivation :: key_derivation where
  "example_derivation =
     \<lparr>sprout_sk_address = (\<lambda>sk. sk + 1),
      sprout_sk_receiving_key = (\<lambda>sk. sk + 2),
      sprout_vk_address = (\<lambda>vk. a_pk vk + sk_enc vk),
      ToXFVK = (\<lambda>sk. sk + 1),
      fvk_in_viewing_key = (\<lambda>fvk. fvk + 1),
      fvk_ovk = (\<lambda>fvk. fvk + 3),
      DefaultAddress = (\<lambda>fvk. fvk + 2),
      expsk = (\<lambda>sk. sk),
      expsk_in_viewing_key = (\<lambda>k. k + 2),
      expsk_ovk = (\<lambda>k. k + 4)\<rparr>"

definition example_wallet :: CBasicKeyStore where
  "example_wallet = snd (AddSaplingSpendingKey example_derivation 10 empty_store)"

definition balanced_Build :: "TransactionBuilder \<Rightarrow> TransactionBuilder option" where
  "balanced_Build b =
     (if sum_list (map (\<lambda>sp. uint (note_value (spend_note sp))) (spends b))
           - sint (fee b) - sum_list (map (\<lambda>out. sint (output_value out)) (outputs b)) \<ge> 0
      then Some b else None)"

definition example_notes :: "SaplingNoteEntry list" where
  "example_notes =
     [\<lparr>entry_op = 1, entry_address = 13, entry_note = \<lparr>note_value = 30000, note_rest = 0\<rparr>\<rparr>,
      \<lparr>entry_op = 2, entry_address = 13, entry_note = \<lparr>note_value = 0, note_rest = 1\<rparr>\<rparr>]"

definition example_env :: "TransactionBuilder consolidation_env" where
  "example_env =
     \<lparr>derive = example_derivation,
      pwalletMain = example_wallet,
      targetConsolidationQty = 2,
      initializeConsolidationInterval = 5,
      fConsolidationTxFee = 10000,
      fConsolidationMapUsed = False,
      consolidatesaplingaddress = [],
      targetHeight = 1000,
      NextActivationHeight = None,
      GetFilteredNotes = example_notes,
      rand = (\<lambda>n. 0),
      TipHeight = (\<lambda>a. 999),
      witness_of = (\<lambda>outpoint. Some (outpoint + 50)),
      anchor_of = (\<lambda>ops. 77),
      Build = balanced_Build,
      GetHash = (\<lambda>tx. ''txid''),
      cancel_arrives = (\<lambda>addr. False)\<rparr>"

definition example_schedule :: WalletSchedule where
  "example_schedule = \<lparr>nextConsolidation = 0, fConsolidationRunning = True\<rparr>"

text \<open>The builder of the run over \<open>example_env\<close>: both notes spent.\<close>

definition two_spend_tx :: TransactionBuilder where
  "two_spend_tx =
     \<lparr>expiryHeight = 1039, fee = 10000,
      spends =
        [\<lparr>spend_expsk = 10, spend_note = \<lparr>note_value = 30000, note_rest = 0\<rparr>,
          spend_anchor = 77, spend_witness = 51\<rparr>,
         \<lparr>spend_expsk = 10, spend_note = \<lparr>note_value = 0, note_rest = 1\<rparr>,
          spend_anchor = 77, spend_witness = 52\<rparr>],
      outputs = [\<lparr>output_ovk = 14, output_to = 13, output_value = 20000\<rparr>]\<rparr>"

text \<open>The same run with the second note's witness missing, and what it builds.\<close>

definition missing_witness_env :: "TransactionBuilder consolidation_env" where
  "missing_witness_env =
     example_env\<lparr>witness_of := (\<lambda>outpoint. if outpoint = 2 then None else Some (outpoint + 50))\<rparr>"

definition one_spend_tx :: TransactionBuilder where
  "one_spend_tx =
     \<lparr>expiryHeight = 1039, fee = 10000,
      spends =
        [\<lparr>spend_expsk = 10, spend_note = \<lparr>note_value = 30000, note_rest = 0\<rparr>,
          spend_anchor = 77, spend_witness = 51\<rparr>],
      outputs = [\<lparr>output_ovk = 14, output_to = 13, output_value = 20000\<rparr>]\<rparr>"

text \<open>The same run with \<open>cancel()\<close> called while address 13 is in flight.\<close>

definition cancelling_env :: "TransactionBuilder consolidation_env" where
  "cancelling_env = example_env\<lparr>cancel_arrives := (\<lambda>addr. addr = 13)\<rparr>"

text \<open>
  The same run with the second \<open>rand()\<close> giving 3: the minimum batch size is 5, more
  than the two notes selected.
\<close>

definition below_minimum_env :: "TransactionBuilder consolidation_env" where
  "below_minimum_env = example_env\<lparr>rand := (\<lambda>n. if n = 1 then 3 else 0)\<rparr>"

text \<open>The same run with a target of three notes: the address has two.\<close>

definition below_target_env :: "TransactionBuilder consolidation_env" where
  "below_target_env = example_env\<lparr>targetConsolidationQty := 3\<rparr>"

text \<open>
  The same run over two other notes of the address, the first of value \<open>2^64 - 1\<close>, and
  the builder it configures.
\<close>

definition huge_notes :: "SaplingNoteEntry list" where
  "huge_notes =
     [\<lparr>entry_op = 1, entry_address = 13,
       entry_note = \<lparr>note_value = 18446744073709551615, note_rest = 0\<rparr>\<rparr>,
      \<lparr>entry_op = 2, entry_address = 13, entry_note = \<lparr>note_value = 0, note_rest = 1\<rparr>\<rparr>]"

definition huge_note_env :: "TransactionBuilder consolidation_env" where
  "huge_note_env = example_env\<lparr>GetFilteredNotes := huge_notes\<rparr>"

definition negative_output_tx :: TransactionBuilder where
  "negative_output_tx =
     \<lparr>expiryHeight = 1039, fee = 0,
      spends =
        [\<lparr>spend_expsk = 10, spend_note = \<lparr>note_value = 18446744073709551615, note_rest = 0\<rparr>,
          spend_anchor = 77, spend_witness = 51\<rparr>,
         \<lparr>spend_expsk = 10, spend_note = \<lparr>note_value = 0, note_rest = 1\<rparr>,
          spend_anchor = 77, spend_witness = 52\<rparr>],
      outputs = [\<lparr>output_ovk = 14, output_to = 13, output_value = - 1\<rparr>]\<rparr>"

section \<open>Properties of the credential store\<close>

lemmas store_add_defs =
  AddSaplingSpendingKey_def AddSaplingFullViewingKey_def AddSaplingIncomingViewingKey_def

lemmas store_get_defs =
  GetSaplingExtendedSpendingKey_def GetSaplingIncomingViewingKey_def
  GetSaplingFullViewingKey_def GetSaplingSpendingKey_def

lemma AddSaplingIncomingViewingKey_last_wins:
  "mapSaplingIncomingViewingKeys
     (snd (AddSaplingIncomingViewingKey ivk2 a (snd (AddSaplingIncomingViewingKey ivk a s)))) a
   = Some ivk2"
  by (simp add: AddSaplingIncomingViewingKey_def)

text \<open>
  Claim C1. Adding an incoming viewing key for an address that already has a different
  one is said to leave the stored mapping as it was. The store assigns through
  \<open>operator[]\<close>: on the empty store, adding the key 1 for the address 7 and then the
  key 2 for the same address, both calls return \<open>true\<close>, the address maps to 1 after
  the first call and to 2 after the second.
\<close>

theorem AddSaplingIncomingViewingKey_overwrites:
  "fst (AddSaplingIncomingViewingKey 1 7 empty_store)
   \<and> GetSaplingIncomingViewingKey (snd (AddSaplingIncomingViewingKey 1 7 empty_store)) 7 = Some 1
   \<and> fst (AddSaplingIncomingViewingKey 2 7 (snd (AddSaplingIncomingViewingKey 1 7 empty_store)))
   \<and> GetSaplingIncomingViewingKey
        (snd (AddSaplingIncomingViewingKey 2 7 (snd (AddSaplingIncomingViewingKey 1 7 empty_store)))) 7
      = Some 2"
  by (simp add: AddSaplingIncomingViewingKey_def GetSaplingIncomingViewingKey_def)

text \<open>
  Claim C8. The composite lookup fails when the address has no incoming viewing key,
  when that key has no full viewing key, and when that full viewing key has no spending
  key; and after \<open>AddSaplingSpendingKey sk\<close>, which returns \<open>true\<close>, the lookup at
  the default address of \<open>sk\<close> returns exactly \<open>sk\<close>, whatever the store held before.
\<close>

theorem GetSaplingExtendedSpendingKey_chain:
  "(mapSaplingIncomingViewingKeys s addr = None
      \<longrightarrow> GetSaplingExtendedSpendingKey s addr = None)
   \<and> (mapSaplingIncomingViewingKeys s addr = Some ivk \<and> mapSaplingFullViewingKeys s ivk = None
      \<longrightarrow> GetSaplingExtendedSpendingKey s addr = None)
   \<and> (mapSaplingIncomingViewingKeys s addr = Some ivk \<and> mapSaplingFullViewingKeys s ivk = Some extfvk
        \<and> mapSaplingSpendingKeys s extfvk = None
      \<longrightarrow> GetSaplingExtendedSpendingKey s addr = None)
   \<and> fst (AddSaplingSpendingKey K sk s0)
   \<and> GetSaplingExtendedSpendingKey (snd (AddSaplingSpendingKey K sk s0))
        (DefaultAddress K (ToXFVK K sk)) = Some sk"
  by (simp add: store_add_defs store_get_defs Let_def)

theorem GetSaplingExtendedSpendingKey_chain_witness:
  "GetSaplingExtendedSpendingKey empty_store 13 = None
   \<and> GetSaplingExtendedSpendingKey (snd (AddSaplingIncomingViewingKey 12 13 empty_store)) 13 = None
   \<and> GetSaplingExtendedSpendingKey
        (snd (AddSaplingFullViewingKey example_derivation 11 empty_store)) 13 = None
   \<and> GetSaplingExtendedSpendingKey
        (snd (AddSaplingSpendingKey example_derivation 10 empty_store)) 13 = Some 10"
proof -
  let ?s1 = "snd (AddSaplingIncomingViewingKey 12 13 empty_store)"
  let ?s2 = "snd (AddSaplingFullViewingKey example_derivation 11 empty_store)"
  have a: "mapSaplingIncomingViewingKeys empty_store 13 = None"
    by (simp add: empty_store_def)
  have b: "mapSaplingIncomingViewingKeys ?s1 13 = Some 12 \<and> mapSaplingFullViewingKeys ?s1 12 = None"
    by (simp add: empty_store_def AddSaplingIncomingViewingKey_def)
  have c: "mapSaplingIncomingViewingKeys ?s2 13 = Some 12 \<and> mapSaplingFullViewingKeys ?s2 12 = Some 11
        \<and> mapSaplingSpendingKeys ?s2 11 = None"
    by (simp add: empty_store_def store_add_defs example_derivation_def Let_def)
  have d: "DefaultAddress example_derivation (ToXFVK example_derivation 10) = 13"
    by (simp add: example_derivation_def)
  show ?thesis
    using a b c d
      GetSaplingExtendedSpendingKey_chain [of empty_store 13 12 11 example_derivation 10 empty_store]
      GetSaplingExtendedSpendingKey_chain [of ?s1 13 12 11 example_derivation 10 empty_store]
      GetSaplingExtendedSpendingKey_chain [of ?s2 13 12 11 example_derivation 10 empty_store]
    by simp
qed

text \<open>
  Claim C9. The seed is write-once: for non-null seeds \<open>s1\<close> and \<open>s2\<close>, once
  \<open>SetHDSeed s1\<close> has returned \<open>true\<close>, \<open>SetHDSeed s2\<close> returns \<open>false\<close> and
  leaves the store as it was, and \<open>GetHDSeed\<close> then returns \<open>s1\<close>.
\<close>

theorem SetHDSeed_write_once:
  assumes "\<not> IsNull s1" and "\<not> IsNull s2" and "SetHDSeed s1 st = (True, st1)"
  shows "SetHDSeed s2 st1 = (False, st1) \<and> GetHDSeed (snd (SetHDSeed s2 st1)) = Some s1"
  using assms by (auto simp: SetHDSeed_def GetHDSeed_def split: if_splits)

theorem SetHDSeed_write_once_witness:
  "SetHDSeed [1, 2] empty_store = (True, empty_store\<lparr>hdSeed := [1, 2]\<rparr>)
   \<and> SetHDSeed [3] (empty_store\<lparr>hdSeed := [1, 2]\<rparr>) = (False, empty_store\<lparr>hdSeed := [1, 2]\<rparr>)
   \<and> GetHDSeed (snd (SetHDSeed [3] (empty_store\<lparr>hdSeed := [1, 2]\<rparr>))) = Some [1, 2]"
proof -
  have a: "\<not> IsNull [1, 2]" and b: "\<not> IsNull [3]"
    by (simp_all add: IsNull_def)
  have c: "SetHDSeed [1, 2] empty_store = (True, empty_store\<lparr>hdSeed := [1, 2]\<rparr>)"
    by (simp add: SetHDSeed_def IsNull_def empty_store_def)
  show ?thesis
    using SetHDSeed_write_once [OF a b c] c by blast
qed

text \<open>
  Claim C10. \<open>RemoveSproutViewingKey vk\<close> returns \<open>true\<close> and erases the entry of
  the viewing-key map at the address of \<open>vk\<close>; every other entry of that map and every
  other member of the store is as before. In particular the note decryptors are
  untouched: the decryptor that \<open>AddSproutViewingKey\<close> or \<open>AddSproutSpendingKey\<close>
  left under the address is still there after the removal.
\<close>

theorem RemoveSproutViewingKey_frame:
  "fst (RemoveSproutViewingKey K vk s)
   \<and> mapSproutViewingKeys (snd (RemoveSproutViewingKey K vk s)) (sprout_vk_address K vk) = None
   \<and> (\<forall>a. a \<noteq> sprout_vk_address K vk \<longrightarrow>
         mapSproutViewingKeys (snd (RemoveSproutViewingKey K vk s)) a = mapSproutViewingKeys s a)
   \<and> (snd (RemoveSproutViewingKey K vk s))\<lparr>mapSproutViewingKeys := mapSproutViewingKeys s\<rparr> = s
   \<and> mapNoteDecryptors (snd (RemoveSproutViewingKey K vk (snd (AddSproutViewingKey K vk s))))
       = mapNoteDecryptors (snd (AddSproutViewingKey K vk s))
   \<and> mapNoteDecryptors (snd (AddSproutViewingKey K vk s)) (sprout_vk_address K vk) \<noteq> None
   \<and> mapNoteDecryptors (snd (RemoveSproutViewingKey K vk (snd (AddSproutSpendingKey K sk s))))
       = mapNoteDecryptors (snd (AddSproutSpendingKey K sk s))
   \<and> mapNoteDecryptors (snd (AddSproutSpendingKey K sk s)) (sprout_sk_address K sk) \<noteq> None"
  by (simp add: RemoveSproutViewingKey_def AddSproutViewingKey_def AddSproutSpendingKey_def
      map_insert_def Let_def split: option.split)

theorem RemoveSproutViewingKey_frame_witness:
  "mapSproutViewingKeys
     (snd (RemoveSproutViewingKey example_derivation \<lparr>a_pk = 3, sk_enc = 4\<rparr>
        (snd (AddSproutViewingKey example_derivation \<lparr>a_pk = 3, sk_enc = 4\<rparr> empty_store)))) 7 = None
   \<and> mapNoteDecryptors
       (snd (RemoveSproutViewingKey example_derivation \<lparr>a_pk = 3, sk_enc = 4\<rparr>
          (snd (AddSproutViewingKey example_derivation \<lparr>a_pk = 3, sk_enc = 4\<rparr> empty_store)))) 7
     = Some (ZCNoteDecryption 4)"
proof -
  let ?vk = "\<lparr>a_pk = 3, sk_enc = 4\<rparr>"
  let ?s = "snd (AddSproutViewingKey example_derivation ?vk empty_store)"
  have a: "sprout_vk_address example_derivation ?vk = 7"
    by (simp add: example_derivation_def)
  have b: "mapNoteDecryptors ?s 7 = Some (ZCNoteDecryption 4)"
    by (simp add: AddSproutViewingKey_def example_derivation_def empty_store_def map_insert_def Let_def)
  show ?thesis
    using a b RemoveSproutViewingKey_frame [of example_derivation ?vk ?s 0]
      RemoveSproutViewingKey_frame [of example_derivation ?vk empty_store 0]
    by simp
qed

section \<open>Properties of the consolidation job\<close>

subsection \<open>Evaluating the concrete runs\<close>

lemma example_wallet_ivk:
  "GetSaplingIncomingViewingKey example_wallet a = (if a = 13 then Some 12 else None)"
  by (simp add: GetSaplingIncomingViewingKey_def example_wallet_def store_add_defs
      example_derivation_def empty_store_def Let_def)

lemma example_wallet_sk:
  "GetSaplingExtendedSpendingKey example_wallet a = (if a = 13 then Some 10 else None)"
  by (simp add: store_get_defs example_wallet_def store_add_defs
      example_derivation_def empty_store_def Let_def)

lemma example_env_fields:
  "derive example_env = example_derivation"
  "pwalletMain example_env = example_wallet"
  "targetConsolidationQty example_env = 2"
  "initializeConsolidationInterval example_env = 5"
  "fConsolidationTxFee example_env = 10000"
  "fConsolidationMapUsed example_env = False"
  "consolidatesaplingaddress example_env = []"
  "targetHeight example_env = 1000"
  "NextActivationHeight example_env = None"
  "GetFilteredNotes example_env = example_notes"
  "rand example_env = (\<lambda>n. 0)"
  "TipHeight example_env = (\<lambda>a. 999)"
  "witness_of example_env = (\<lambda>outpoint. Some (outpoint + 50))"
  "anchor_of example_env = (\<lambda>ops. 77)"
  "Build example_env = balanced_Build"
  "GetHash example_env = (\<lambda>tx. ''txid'')"
  "cancel_arrives example_env = (\<lambda>addr. False)"
  by (simp_all add: example_env_def)

lemmas run_defs =
  main_def main_impl_def too_close_to_activation_def mapAddresses_def
  consolidate_address_def example_wallet_sk example_wallet_ivk note_is_ours_def
  Let_def example_env_fields example_derivation_def example_notes_def
  GetSaplingNoteWitnesses_def SetExpiryHeight_def SetFee_def AddSaplingSpend_def
  AddSaplingOutput_def new_TransactionBuilder_def balanced_Build_def
  isCancelled_def cancel_def set_state_def setConsolidationResult_def
  CONSOLIDATION_EXPIRY_DELTA_def mark_complete_def example_schedule_def
  two_spend_tx_def one_spend_tx_def word_sle_eq

lemma example_run:
  "main example_env CREATED example_schedule =
     \<lparr>success = True,
      result = Some \<lparr>num_tx_created = 0, amount_consolidated = 50000,
                     consolidation_txids = [''txid'']\<rparr>,
      op_state = SUCCESS,
      wallet = example_schedule,
      committed_txs = [two_spend_tx],
      trace = [(13, Committed example_notes two_spend_tx two_spend_tx)]\<rparr>"
  by (simp add: run_defs)

lemma missing_witness_run:
  "main missing_witness_env CREATED example_schedule =
     \<lparr>success = True,
      result = Some \<lparr>num_tx_created = 0, amount_consolidated = 50000,
                     consolidation_txids = [''txid'']\<rparr>,
      op_state = SUCCESS,
      wallet = example_schedule,
      committed_txs = [one_spend_tx],
      trace = [(13, Committed example_notes one_spend_tx one_spend_tx)]\<rparr>"
  by (simp add: run_defs missing_witness_env_def)

lemma cancelling_run:
  "main cancelling_env CREATED example_schedule =
     \<lparr>success = True,
      result = Some \<lparr>num_tx_created = 0, amount_consolidated = 30000,
                     consolidation_txids = []\<rparr>,
      op_state = SUCCESS,
      wallet = example_schedule,
      committed_txs = [],
      trace = [(13, CancelledStop example_notes two_spend_tx two_spend_tx)]\<rparr>"
  by (simp add: run_defs cancelling_env_def)

lemma below_minimum_run:
  "main_impl below_minimum_env EXECUTING example_schedule =
     \<lparr>success = True,
      result = Some \<lparr>num_tx_created = 0, amount_consolidated = 0, consolidation_txids = []\<rparr>,
      op_state = EXECUTING,
      wallet = example_schedule,
      committed_txs = [],
      trace = [(13, BelowMinimum)]\<rparr>"
  by (simp add: run_defs below_minimum_env_def)

lemma below_target_run:
  "main_impl below_target_env EXECUTING example_schedule =
     \<lparr>success = True,
      result = Some \<lparr>num_tx_created = 0, amount_consolidated = 0, consolidation_txids = []\<rparr>,
      op_state = EXECUTING,
      wallet = \<lparr>nextConsolidation = 1004, fConsolidationRunning = False\<rparr>,
      committed_txs = [],
      trace = [(13, BelowTarget)]\<rparr>"
  by (simp add: run_defs below_target_env_def)

lemma huge_note_run:
  "main_impl huge_note_env EXECUTING example_schedule =
     \<lparr>success = True,
      result = Some \<lparr>num_tx_created = 0, amount_consolidated = - 2,
                     consolidation_txids = [''txid'']\<rparr>,
      op_state = EXECUTING,
      wallet = example_schedule,
      committed_txs = [negative_output_tx],
      trace = [(13, Committed huge_notes negative_output_tx negative_output_tx)]\<rparr>"
  by (simp add: run_defs huge_note_env_def huge_notes_def negative_output_tx_def)

subsection \<open>The loop\<close>

lemma outputs_add_spends: "outputs (add_spends k anchor zs b) = outputs b"
  by (induction k anchor zs b rule: add_spends.induct) (simp_all add: AddSaplingSpend_def)

lemma notes_value_nonneg: "0 \<le> notes_value fromNotes"
  by (induction fromNotes) (simp_all add: notes_value_def)

text \<open>
  The amount the selection returns is the sum of the selected values on 64 bits: the
  number \<open>notes_value\<close> reduced to a word.
\<close>

lemma uint64_sum_word:
  "sum_list (map (\<lambda>e. note_value (entry_note e)) fs) = word_of_int (notes_value fs)"
  by (induction fs) (simp_all add: notes_value_def wi_hom_syms)

lemma select_notes_amount:
  "fst (select_notes env extsk addr mq es acc)
     - sum_list (map (\<lambda>e. note_value (entry_note e)) (snd (select_notes env extsk addr mq es acc)))
   = fst acc - sum_list (map (\<lambda>e. note_value (entry_note e)) (snd acc))"
proof (induction es arbitrary: acc)
  case Nil
  show ?case by simp
next
  case (Cons e es)
  obtain amt fs where acc: "acc = (amt, fs)" by (cases acc)
  show ?case
    unfolding acc using Cons.IH
    by (simp add: Let_def)
qed

text \<open>
  With a positive \<open>maxQuantity\<close> (the job's is between 10 and 44) the selection never
  holds more notes than that.
\<close>

lemma select_notes_length:
  "length (snd acc) < mq \<Longrightarrow> length (snd (select_notes env extsk addr mq es acc)) \<le> mq"
proof (induction es arbitrary: acc)
  case Nil
  then show ?case by simp
next
  case (Cons e es)
  obtain amt fs where acc: "acc = (amt, fs)" by (cases acc)
  show ?case
    using Cons.prems Cons.IH unfolding acc
    by (auto simp: Let_def not_le)
qed

lemma select_notes_sum:
  "fst (select_notes env extsk addr mq es (0, []))
   = word_of_int (notes_value (snd (select_notes env extsk addr mq es (0, []))))"
  using select_notes_amount [of env extsk addr mq es "(0, [])"]
  by (simp add: uint64_sum_word)

text \<open>Signed reading of a word that holds a number inside the signed range.\<close>

lemma sint_of_small:
  fixes V :: int
  assumes "- (2 ^ 63) \<le> V" and "V < 2 ^ 63"
  shows "sint (word_of_int V :: 64 word) = V"
proof -
  have "signed_take_bit 63 V = V"
    using assms by (intro signed_take_bit_int_eq_self) simp_all
  then show ?thesis by (simp add: sint_sbintrunc')
qed

text \<open>
  The fee and the output amount as the job computes them from the 64-bit sum, when the
  sum \<open>V\<close> and \<open>V - F\<close> are below \<open>2^63\<close>: no cast and no subtraction changes a
  value.
\<close>

lemma fee_and_output_arith:
  fixes V :: int and F :: "64 word"
  assumes "0 \<le> V" and "V < 2 ^ 63" and "V - sint F < 2 ^ 63"
  shows "sint (if word_sle (word_of_int V) F then 0 else F) = (if V > sint F then sint F else 0)
         \<and> sint (word_of_int V - (if word_sle (word_of_int V) F then 0 else F))
             = V - (if V > sint F then sint F else 0)
         \<and> 0 \<le> V - (if V > sint F then sint F else 0)"
proof -
  have A: "sint (word_of_int V :: 64 word) = V"
    using assms by (intro sint_of_small) simp_all
  show ?thesis
  proof (cases "V > sint F")
    case True
    then have "- (2 ^ 63) \<le> V - sint F" by simp
    then have "sint (word_of_int V - F) = V - sint F"
      using assms(3) A by (simp add: sint_word_ariths signed_take_bit_int_eq_self)
    with True A assms show ?thesis by (simp add: word_sle_eq)
  next
    case False
    with A assms show ?thesis by (simp add: word_sle_eq)
  qed
qed

text \<open>
  What the body configures on the builder, for every input: the fee and the one output,
  computed on 64 bits from the sum of the selected values.
\<close>

lemma consolidate_address_builder:
  assumes "consolidate_address env it st = (out, st')"
    and "attempt_of out = Some (fromNotes, b)"
  shows "fee b = (if word_sle (word_of_int (notes_value fromNotes)) (fConsolidationTxFee env)
                  then 0 else fConsolidationTxFee env)
         \<and> map output_value (outputs b) = [word_of_int (notes_value fromNotes) - fee b]
         \<and> map output_to (outputs b) = [fst it]"
  using assms
  unfolding consolidate_address_def Let_def
  by (auto split: option.splits if_splits
      simp: select_notes_sum outputs_add_spends SetFee_def AddSaplingOutput_def
        SetExpiryHeight_def new_TransactionBuilder_def)

lemma consolidate_address_attempt:
  assumes "consolidate_address env it st = (out, st')"
    and "attempt_of out = Some (fromNotes, b)"
    and "notes_value fromNotes < 2 ^ 63"
    and "notes_value fromNotes - sint (fConsolidationTxFee env) < 2 ^ 63"
  shows "sint (fee b) = (if notes_value fromNotes > sint (fConsolidationTxFee env)
                         then sint (fConsolidationTxFee env) else 0)
         \<and> output_amounts b = [notes_value fromNotes - sint (fee b)]
         \<and> map output_to (outputs b) = [fst it]
         \<and> 0 \<le> notes_value fromNotes - sint (fee b)"
proof -
  let ?V = "notes_value fromNotes"
  let ?F = "fConsolidationTxFee env"
  note b = consolidate_address_builder [OF assms(1,2)]
  note ar = fee_and_output_arith [OF notes_value_nonneg [of fromNotes] assms(3,4)]
  have fee: "sint (fee b) = (if ?V > sint ?F then sint ?F else 0)"
    using b ar by simp
  have "map (\<lambda>out. sint (output_value out)) (outputs b)
          = map sint (map output_value (outputs b))"
    by simp
  also have "\<dots> = [sint (word_of_int ?V - fee b)]"
    using b by simp
  also have "sint (word_of_int ?V - fee b) = ?V - sint (fee b)"
    using b ar fee by simp
  finally have out: "output_amounts b = [?V - sint (fee b)]"
    by (simp add: output_amounts_def)
  have "0 \<le> ?V - sint (fee b)"
    using ar fee by simp
  with fee out b show ?thesis by simp
qed

lemma consolidate_all_trace:
  "consolidate_all env m st = (st', tr) \<Longrightarrow> (a, out) \<in> set tr \<Longrightarrow>
     \<exists>es s s'. (a, es) \<in> set m \<and> consolidate_address env (a, es) s = (out, s')"
proof (induction m arbitrary: st st' tr)
  case Nil
  then show ?case by simp
next
  case (Cons it rest)
  obtain o1 s1 where step: "consolidate_address env it st = (o1, s1)"
    by (cases "consolidate_address env it st")
  show ?case
  proof (cases "leaves_loop o1")
    case True
    with Cons.prems step have "a = fst it" "out = o1" by auto
    with step show ?thesis by (cases it) auto
  next
    case False
    obtain s2 tr2 where rest: "consolidate_all env rest s1 = (s2, tr2)"
      by (cases "consolidate_all env rest s1")
    with Cons.prems step False have tr: "tr = (fst it, o1) # tr2" by simp
    show ?thesis
    proof (cases "(a, out) = (fst it, o1)")
      case True
      with step show ?thesis by (cases it) auto
    next
      case False
      with tr Cons.prems(2) have "(a, out) \<in> set tr2" by auto
      from Cons.IH [OF rest this] show ?thesis by auto
    qed
  qed
qed

lemma consolidate_address_complete:
  "consolidationComplete (snd (consolidate_address env it st))
   = (consolidationComplete st \<and> leaves_complete env it)"
  unfolding consolidate_address_def leaves_complete_def Let_def
  by (simp split: option.splits)

lemma consolidate_address_leaves:
  "leaves_loop (fst (consolidate_address env it st)) \<Longrightarrow> \<not> leaves_complete env it"
  unfolding consolidate_address_def leaves_complete_def Let_def
  by (auto split: option.splits if_splits)

lemma consolidate_all_complete:
  "consolidationComplete (fst (consolidate_all env m st))
   = (consolidationComplete st \<and> list_all (leaves_complete env) m)"
proof (induction m arbitrary: st)
  case Nil
  show ?case by simp
next
  case (Cons it rest)
  obtain o1 s1 where step: "consolidate_address env it st = (o1, s1)"
    by (cases "consolidate_address env it st")
  have s1: "consolidationComplete s1 = (consolidationComplete st \<and> leaves_complete env it)"
    using consolidate_address_complete [of env it st] step by simp
  show ?case
  proof (cases "leaves_loop o1")
    case True
    then have "\<not> leaves_complete env it"
      using consolidate_address_leaves [of env it st] step by simp
    with True step s1 show ?thesis by simp
  next
    case False
    with step s1 Cons.IH [of s1] show ?thesis
      by (auto split: prod.splits)
  qed
qed

lemma numTxCreated_consolidate_address:
  "numTxCreated (snd (consolidate_address env it st)) = numTxCreated st"
  unfolding consolidate_address_def Let_def
  by (simp split: option.splits)

lemma numTxCreated_consolidate_all:
  "numTxCreated (fst (consolidate_all env m st)) = numTxCreated st"
proof (induction m arbitrary: st)
  case Nil
  show ?case by simp
next
  case (Cons it rest)
  show ?case
    using Cons.IH [of "snd (consolidate_address env it st)"]
      numTxCreated_consolidate_address [of env it st]
    by (auto split: prod.splits)
qed

lemma num_tx_created_always_zero:
  "map_option num_tx_created (result (main_impl env st0 w)) = Some 0"
proof (cases "too_close_to_activation env")
  case True
  then show ?thesis by (simp add: main_impl_def setConsolidationResult_def)
next
  case False
  let ?init = "\<lparr>numTxCreated = 0, consolidationTxIds = [], amountConsolidated = 0,
                consolidationComplete = True, rand_calls = 0, committed = [], state = st0\<rparr>"
  obtain st tr where run: "consolidate_all env (mapAddresses env) ?init = (st, tr)"
    by (cases "consolidate_all env (mapAddresses env) ?init")
  have "numTxCreated st = 0"
    using numTxCreated_consolidate_all [of env "mapAddresses env" ?init] run by simp
  with False run show ?thesis
    by (simp add: main_impl_def setConsolidationResult_def)
qed

lemma consolidate_address_cancel:
  assumes "consolidate_address env (addr, es) st = (out, st')"
    and "cancel_arrives env addr"
  shows "out \<noteq> Committed fromNotes b tx \<and> committed st' = committed st"
  using assms unfolding consolidate_address_def Let_def
  by (auto split: option.splits if_splits simp: isCancelled_def cancel_def set_state_def)

lemma cancel_before_witnesses_never_commits:
  assumes "(addr, out) \<in> set (trace (main_impl env st0 w))"
    and "cancel_arrives env addr"
  shows "out \<noteq> Committed fromNotes b tx"
proof -
  let ?init = "\<lparr>numTxCreated = 0, consolidationTxIds = [], amountConsolidated = 0,
                consolidationComplete = True, rand_calls = 0, committed = [], state = st0\<rparr>"
  obtain st tr where run: "consolidate_all env (mapAddresses env) ?init = (st, tr)"
    by (cases "consolidate_all env (mapAddresses env) ?init")
  have "(addr, out) \<in> set tr"
    using assms(1) run by (simp add: main_impl_def split: if_splits)
  from consolidate_all_trace [OF run this]
  obtain es s s' where "consolidate_address env (addr, es) s = (out, s')"
    by blast
  from consolidate_address_cancel [OF this assms(2)] show ?thesis
    by simp
qed

subsection \<open>The claims\<close>

text \<open>
  Claim C2. The reported \<open>numTxCreated\<close> is said to equal the number of transactions the
  run committed, the length of \<open>consolidationTxIds\<close>. The counter is declared,
  logged and reported, and no statement of the loop increments it
  (\<open>num_tx_created_always_zero\<close>): the run over \<open>example_env\<close> commits one
  transaction, reports one identifier and reports \<open>num_tx_created = 0\<close>.
\<close>

theorem numTxCreated_never_incremented:
  "num_tx_created (the (result (main example_env CREATED example_schedule))) = 0
   \<and> length (consolidation_txids (the (result (main example_env CREATED example_schedule)))) = 1
   \<and> length (committed_txs (main example_env CREATED example_schedule)) = 1"
  by (simp add: example_run)

text \<open>
  Claim C3, as amended. \<open>main_impl\<close> marks the run complete (the next consolidation
  height set to the configured interval past the tip, the running flag cleared) exactly
  when the run is not skipped for being too close to an activation height and every
  address of the run either has no spending key in the wallet or has fewer notes of its
  own than the target; otherwise the wallet's scheduling fields are as before.
\<close>

theorem main_impl_marks_complete:
  "wallet (main_impl env st0 w) =
     (if \<not> too_close_to_activation env \<and> list_all (leaves_complete env) (mapAddresses env)
      then mark_complete env w else w)"
proof (cases "too_close_to_activation env")
  case True
  then show ?thesis by (simp add: main_impl_def)
next
  case False
  let ?init = "\<lparr>numTxCreated = 0, consolidationTxIds = [], amountConsolidated = 0,
                consolidationComplete = True, rand_calls = 0, committed = [], state = st0\<rparr>"
  obtain st tr where run: "consolidate_all env (mapAddresses env) ?init = (st, tr)"
    by (cases "consolidate_all env (mapAddresses env) ?init")
  have "consolidationComplete st = list_all (leaves_complete env) (mapAddresses env)"
    using consolidate_all_complete [of env "mapAddresses env" ?init] run by simp
  with False run show ?thesis
    by (simp add: main_impl_def)
qed

theorem main_impl_marks_complete_witness:
  "wallet (main_impl below_target_env EXECUTING example_schedule)
     = mark_complete below_target_env example_schedule
   \<and> trace (main_impl below_target_env EXECUTING example_schedule) = [(13, BelowTarget)]
   \<and> list_all (leaves_complete below_target_env) (mapAddresses below_target_env)
   \<and> wallet (main_impl example_env EXECUTING example_schedule) = example_schedule
   \<and> \<not> list_all (leaves_complete example_env) (mapAddresses example_env)"
proof -
  have a: "\<not> too_close_to_activation below_target_env"
    and b: "list_all (leaves_complete below_target_env) (mapAddresses below_target_env)"
    by (simp_all add: run_defs below_target_env_def leaves_complete_def)
  have c: "\<not> list_all (leaves_complete example_env) (mapAddresses example_env)"
    by (simp add: run_defs leaves_complete_def)
  show ?thesis
    using a b c below_target_run
      main_impl_marks_complete [of below_target_env EXECUTING example_schedule]
      main_impl_marks_complete [of example_env EXECUTING example_schedule]
    by simp
qed

text \<open>
  Claim C3, as stated, fails where the one address of the run has enough notes for the
  target and is then skipped for falling short of the random minimum: every address was
  skipped at step 4b or 4c, and the run is not marked complete (the flag still set).
\<close>

theorem skipped_at_4c_not_complete:
  "trace (main_impl below_minimum_env EXECUTING example_schedule) = [(13, BelowMinimum)]
   \<and> wallet (main_impl below_minimum_env EXECUTING example_schedule) = example_schedule
   \<and> fConsolidationRunning (wallet (main_impl below_minimum_env EXECUTING example_schedule))
   \<and> \<not> ((wallet (main_impl below_minimum_env EXECUTING example_schedule)
           = mark_complete below_minimum_env example_schedule)
        = list_all skipped_4b_or_4c
            (map snd (trace (main_impl below_minimum_env EXECUTING example_schedule))))"
  by (simp add: below_minimum_run) (simp add: example_schedule_def mark_complete_def)

text \<open>
  Claim C4. A missing witness is said to skip the construction of the address's
  transaction. The \<open>break\<close> at line 211 leaves only the loop that adds the spends:
  with the witness of the second of two selected notes missing, the job still sets the
  fee, adds the output and builds, and it commits a transaction with one spend.
\<close>

theorem missing_witness_still_builds:
  "trace (main missing_witness_env CREATED example_schedule)
     = [(13, Committed example_notes one_spend_tx one_spend_tx)]
   \<and> committed_txs (main missing_witness_env CREATED example_schedule) = [one_spend_tx]
   \<and> length example_notes = 2
   \<and> witness_of missing_witness_env (entry_op (example_notes ! 1)) = None
   \<and> length (spends one_spend_tx) = 1"
  by (simp add: missing_witness_run)
     (simp add: example_notes_def one_spend_tx_def missing_witness_env_def)

text \<open>
  Claim C5. A run cancelled while an address is in flight, before its witnesses are
  retrieved, is said to commit nothing for that address and to end in the state
  \<open>CANCELLED\<close>. Nothing is committed (\<open>cancel_before_witnesses_never_commits\<close>),
  but \<open>main_impl\<close> still returns \<open>true\<close> and \<open>main\<close> then sets the state to
  \<open>SUCCESS\<close>.
\<close>

theorem cancelled_run_ends_in_SUCCESS:
  "cancel_arrives cancelling_env 13
   \<and> trace (main cancelling_env CREATED example_schedule)
       = [(13, CancelledStop example_notes two_spend_tx two_spend_tx)]
   \<and> committed_txs (main cancelling_env CREATED example_schedule) = []
   \<and> op_state (main cancelling_env CREATED example_schedule) = SUCCESS"
  by (simp add: cancelling_run) (simp add: cancelling_env_def)

text \<open>
  Claim C6. The reported \<open>amountConsolidated\<close> is said to be the value consolidated by
  the committed transactions, counted once each. The job adds the summed value before it
  builds (line 183) and the output amount again after it commits (line 235): the run
  over \<open>example_env\<close> commits one transaction that spends notes worth 30000 into an
  output of 20000, and reports 50000.
\<close>

theorem amountConsolidated_counts_twice:
  "amount_consolidated (the (result (main example_env CREATED example_schedule))) = 50000
   \<and> trace (main example_env CREATED example_schedule)
       = [(13, Committed example_notes two_spend_tx two_spend_tx)]
   \<and> committed_txs (main example_env CREATED example_schedule) = [two_spend_tx]
   \<and> notes_value example_notes = 30000
   \<and> map output_value (outputs two_spend_tx) = [20000]"
  by (simp add: example_run) (simp add: notes_value_def example_notes_def two_spend_tx_def)

text \<open>
  Claim C7, as amended. For every address whose transaction the job configures, with
  \<open>V\<close> the summed value of the selected notes and \<open>F\<close> the configured fee, provided
  \<open>V\<close> and \<open>V - F\<close> are below \<open>2^63\<close> (so whenever \<open>V\<close> is and the fee is not
  negative): the builder's fee is \<open>F\<close> if \<open>V > F\<close> and 0 otherwise, its outputs are the
  single output to the address itself of amount \<open>V\<close> minus that fee, and this amount is
  not negative.
\<close>

theorem consolidation_fee_and_output:
  assumes "(addr, out) \<in> set (trace (main_impl env st0 w))"
    and "attempt_of out = Some (fromNotes, b)"
    and "notes_value fromNotes < 2 ^ 63"
    and "notes_value fromNotes - sint (fConsolidationTxFee env) < 2 ^ 63"
  shows "sint (fee b) = (if notes_value fromNotes > sint (fConsolidationTxFee env)
                         then sint (fConsolidationTxFee env) else 0)
         \<and> output_amounts b = [notes_value fromNotes - sint (fee b)]
         \<and> map output_to (outputs b) = [addr]
         \<and> 0 \<le> notes_value fromNotes - sint (fee b)"
proof -
  let ?init = "\<lparr>numTxCreated = 0, consolidationTxIds = [], amountConsolidated = 0,
                consolidationComplete = True, rand_calls = 0, committed = [], state = st0\<rparr>"
  obtain st tr where run: "consolidate_all env (mapAddresses env) ?init = (st, tr)"
    by (cases "consolidate_all env (mapAddresses env) ?init")
  have "(addr, out) \<in> set tr"
    using assms(1) run by (simp add: main_impl_def split: if_splits)
  from consolidate_all_trace [OF run this]
  obtain es s s' where "consolidate_address env (addr, es) s = (out, s')"
    by blast
  from consolidate_address_attempt [OF this assms(2,3,4)] show ?thesis
    by simp
qed

theorem consolidation_fee_and_output_witness:
  "(13, Committed example_notes two_spend_tx two_spend_tx)
     \<in> set (trace (main_impl example_env EXECUTING example_schedule))
   \<and> notes_value example_notes = 30000
   \<and> sint (fConsolidationTxFee example_env) = 10000
   \<and> sint (fee two_spend_tx) = 10000
   \<and> output_amounts two_spend_tx = [20000]
   \<and> map output_to (outputs two_spend_tx) = [13]"
proof -
  have a: "(13, Committed example_notes two_spend_tx two_spend_tx)
             \<in> set (trace (main_impl example_env EXECUTING example_schedule))"
    by (simp add: run_defs)
  have b: "attempt_of (Committed example_notes two_spend_tx two_spend_tx)
             = Some (example_notes, two_spend_tx)"
    by simp
  have c: "notes_value example_notes = 30000"
    by (simp add: notes_value_def example_notes_def)
  have d: "sint (fConsolidationTxFee example_env) = 10000"
    by (simp add: example_env_fields)
  have e: "notes_value example_notes < 2 ^ 63"
    and f: "notes_value example_notes - sint (fConsolidationTxFee example_env) < 2 ^ 63"
    by (simp_all add: c d)
  show ?thesis
    using a c d consolidation_fee_and_output [OF a b e f]
    by simp
qed

text \<open>
  Claim C7, as stated, fails where a selected note has the value \<open>2^64 - 1\<close>: the
  summed value is above the fee of 10000, and the job, which holds the sum as the
  amount \<open>-1\<close>, sets the fee to 0 and the output amount to \<open>-1\<close>.
\<close>

theorem huge_note_negative_output:
  "(13, Committed huge_notes negative_output_tx negative_output_tx)
     \<in> set (trace (main_impl huge_note_env EXECUTING example_schedule))
   \<and> notes_value huge_notes = 18446744073709551615
   \<and> sint (fConsolidationTxFee huge_note_env) = 10000
   \<and> sint (fee negative_output_tx) = 0
   \<and> output_amounts negative_output_tx = [- 1]"
  by (simp add: huge_note_run)
     (simp add: notes_value_def huge_notes_def huge_note_env_def example_env_fields
        negative_output_tx_def output_amounts_def)

end
